theory Spec2Isabelle
  imports Main "HOL-Library.Word"
begin

unbundle bit_operations_syntax

section \<open>Machine integers and constants of the platform headers\<close>

text \<open>
  The two tests are C programs for x86-64 Linux: \<open>int\<close> and \<open>pid_t\<close> are 32-bit two's
  complement integers. A value is a \<open>32 word\<close>; it is read with \<open>sint\<close>, compared with the
  signed orders \<open>\<le>s\<close> and \<open><s\<close>, and \<open>OR\<close> is the bitwise or of C.
\<close>

type_synonym int32 = "32 word"

text \<open>The error numbers of \<open>errno.h\<close> on Linux, which the \<open>switch\<close> of \<open>child_thread\<close> negates.\<close>

definition EINVAL :: int32 where "EINVAL = 22"
definition EBUSY :: int32 where "EBUSY = 16"
definition EAGAIN :: int32 where "EAGAIN = 11"

text \<open>
  Modelled from the spec: \<open>MAX_POPCORN_NODES\<close> is a macro of \<open>platform.h\<close>, which is not
  among the sources. The spec bounds node ids by a fixed maximum, "32 in the reference
  tests", and the message of the range check reads "0-31".
\<close>

definition MAX_POPCORN_NODES :: int32 where "MAX_POPCORN_NODES = 32"

definition FT2C_NODES :: int32 where "FT2C_NODES = 32"
definition TND_NODES :: int32 where "TND_NODES = 32"
definition NODE_OFFLINE :: int32 where "NODE_OFFLINE = 0"

text \<open>
  An access outside an array, or through a null pointer, has no defined behaviour in C.
  The model stops there with a fault instead of inventing a value.
\<close>

datatype fault = OutOfBounds | NullPointer

text \<open>\<open>arch_sz\<close>: four names and a terminating \<open>NULL\<close>, five entries in all.\<close>

definition arch_sz :: "string option list" where
  "arch_sz = [Some ''unknown'', Some ''arm64'', Some ''x86-64'', Some ''ppc64le'', None]"

definition arch_sz_get :: "int32 \<Rightarrow> fault + string option" where
  "arch_sz_get i =
     (if 0 \<le>s i \<and> nat (sint i) < length arch_sz then Inr (arch_sz ! nat (sint i))
      else Inl OutOfBounds)"

text \<open>
  \<open>struct popcorn_node_status\<close> comes from \<open>platform.h\<close>; the code reads its fields
  \<open>status\<close> and \<open>arch\<close>. The table \<open>pnodes\<close> is a local array of \<open>FT2C_NODES\<close>,
  in tnd.c of \<open>TND_NODES\<close>, entries: the size is the first argument.
\<close>

record popcorn_node_status =
  status :: int32
  arch :: int32

definition pnodes_get ::
  "int32 \<Rightarrow> (nat \<Rightarrow> popcorn_node_status) \<Rightarrow> int32 \<Rightarrow> fault + popcorn_node_status" where
  "pnodes_get n pnodes i =
     (if 0 \<le>s i \<and> i <s n then Inr (pnodes (nat (sint i))) else Inl OutOfBounds)"

section \<open>The platform as seen by one thread\<close>

text \<open>
  The migration primitive and the introspection calls belong to the kernel library. A
  travelling thread sees them as an oracle indexed by the number of \<open>migrate\<close> calls it
  has made so far: \<open>gettid_at P k\<close> is what \<open>gettid()\<close> returns after \<open>k\<close> calls,
  \<open>migrate_ret P k\<close> is the return value of call number \<open>k\<close> (counted from 0),
  \<open>getnodeinfo_at P k\<close> is the error code, the current node id and the node table that
  \<open>popcorn_getnodeinfo\<close> delivers, \<open>getthreadinfo_at P k\<close> the error code and the
  \<open>current_nid\<close> of \<open>popcorn_getthreadinfo\<close>.
\<close>

record platform =
  gettid_at :: "nat \<Rightarrow> int32"
  migrate_ret :: "nat \<Rightarrow> int32"
  getnodeinfo_at :: "nat \<Rightarrow> int32 \<times> int32 \<times> (nat \<Rightarrow> popcorn_node_status)"
  getthreadinfo_at :: "nat \<Rightarrow> int32 \<times> int32"

text \<open>
  What the process as a whole gets from its environment: the id of the main thread, the
  return values of the successive \<open>posix_memalign\<close> calls, whether \<open>malloc\<close> returns
  \<open>NULL\<close>, the content of freshly allocated memory where the code reads it before
  writing it, and the oracle of each child thread.
\<close>

record system =
  main_tid :: int32
  memalign_ret :: "nat \<Rightarrow> int32"
  malloc_null :: bool
  fresh_tid :: int32
  child :: "nat \<Rightarrow> platform"

section \<open>Output\<close>

text \<open>
  One constructor for each \<open>printf\<close> format of the two programs, with the values printed.
  The program prefixes "FT\_2\_C" and "TND" are left out. Every message goes through
  \<open>printf\<close>, that is to the standard output.
\<close>

datatype msg =
    NodeInfoFailed int32 int32
  | WrongNode int32 int32
  | NodeOffline int32
  | LocalArch int32 "string option"
  | RemoteArch int32 "string option"
  | ThreadInfoFailed int32 int32
  | ThreadWrongNode int32 int32 int32
  | TidNotPositive int32
  | ThreadIdIs int32
  | MigInvalidDest int32 int32
  | MigAlreadyThere int32 int32
  | MigOffline int32 int32
  | MigOther int32 int32
  | ArrivedBack
  | TidMismatch int32 int32
  | ThreadPassed int32 int32
  | TouchedSink int32 "string option"
  | TouchedSource int32 "string option"
  | PidNotPositive int32
  | UsageArgs
  | ProcessIdIs int32
  | SameNode
  | NodeRange
  | InitFailed int32
  | ThreadExited int32 int32 int32
  | TestPassed int32

datatype event =
    Printf msg
  | Sleep nat
  | Call_malloc
  | Call_posix_memalign
  | Call_barrier_init int32
  | Call_pthread_create
  | Call_pthread_join
  | Call_free

section \<open>Command line\<close>

text \<open>
  \<open>argv\<close> is the list of the arguments, the program name first, and \<open>argc\<close> its length.
  \<open>argv[argc]\<close> is a null pointer and \<open>atoi\<close> of it has no defined behaviour; entries
  beyond it do not exist.
\<close>

definition argv_get :: "string list \<Rightarrow> nat \<Rightarrow> fault + string" where
  "argv_get argv k =
     (if k < length argv then Inr (argv ! k)
      else if k = length argv then Inl NullPointer else Inl OutOfBounds)"

definition isspace :: "char \<Rightarrow> bool" where
  "isspace c = (let n = (of_char c :: nat) in n = 32 \<or> (9 \<le> n \<and> n \<le> 13))"

definition isdigit :: "char \<Rightarrow> bool" where
  "isdigit c = (let n = (of_char c :: nat) in 48 \<le> n \<and> n \<le> 57)"

definition digits_value :: "string \<Rightarrow> int" where
  "digits_value ds = foldl (\<lambda>a c. 10 * a + (int (of_char c) - 48)) 0 ds"

text \<open>
  \<open>atoi\<close> of the C library: \<open>(int) strtol(s, NULL, 10)\<close>. White space is skipped, one
  sign is read, then the longest run of decimal digits; no digit gives 0. glibc's
  \<open>strtol\<close> saturates at the bounds of \<open>long\<close> and the conversion to \<open>int\<close> keeps the
  low 32 bits.
\<close>

definition atoi :: "string \<Rightarrow> int32" where
  "atoi s =
     (let s1 = dropWhile isspace s;
          neg = (case s1 of [] \<Rightarrow> False | c # _ \<Rightarrow> c = CHR ''-'');
          s2 = (case s1 of [] \<Rightarrow> [] | c # r \<Rightarrow> if c = CHR ''-'' \<or> c = CHR ''+'' then r else s1);
          v = digits_value (takeWhile isdigit s2);
          sv = (if neg then - v else v);
          lv = max (- (2 ^ 63)) (min (2 ^ 63 - 1) sv)
      in word_of_int lv)"

section \<open>Argument validation (both programs)\<close>

text \<open>
  The same two-branch test stands in both \<open>main\<close> functions (ft2c.c lines 336 to 347,
  tnd.c lines 337 to 345): equal ids first, then the range test with the combined sign
  check. \<open>None\<close> means that both branches were passed.
\<close>

definition check_nodes :: "int32 \<Rightarrow> int32 \<Rightarrow> msg option" where
  "check_nodes source_node sink_node =
     (if source_node = sink_node then Some SameNode
      else if (source_node OR sink_node) <s 0 \<or> MAX_POPCORN_NODES \<le>s source_node
              \<or> MAX_POPCORN_NODES \<le>s sink_node then Some NodeRange
      else None)"

section \<open>ft2c: one thread, one round trip\<close>

record thread =
  tid :: int32
  source_nid :: int32
  sink_nid :: int32
  done_flag :: int32

text \<open>\<open>node_sanity_check\<close> of ft2c.c, called after \<open>h\<close> migrations: the value returned and the lines printed.\<close>

definition node_sanity_check :: "platform \<Rightarrow> nat \<Rightarrow> int32 \<Rightarrow> int32 \<Rightarrow> fault + (int32 \<times> msg list)" where
  "node_sanity_check P h local_nid remote_nid =
     (case getnodeinfo_at P h of (node_err, current_nid, pnodes) \<Rightarrow>
        if node_err \<noteq> 0 then Inr (node_err, [NodeInfoFailed current_nid node_err])
        else if current_nid \<noteq> local_nid then Inr (- 1, [WrongNode local_nid current_nid])
        else (case pnodes_get FT2C_NODES pnodes local_nid of Inl f \<Rightarrow> Inl f | Inr pl \<Rightarrow>
          if status pl = NODE_OFFLINE then Inr (- 1, [NodeOffline local_nid])
          else (case pnodes_get FT2C_NODES pnodes remote_nid of Inl f \<Rightarrow> Inl f | Inr pr \<Rightarrow>
            if status pr = NODE_OFFLINE then Inr (- 1, [NodeOffline remote_nid])
            else (case arch_sz_get (arch pl + 1) of Inl f \<Rightarrow> Inl f | Inr sl \<Rightarrow>
              (case arch_sz_get (arch pr + 1) of Inl f \<Rightarrow> Inl f | Inr sr \<Rightarrow>
                 Inr (0, [LocalArch local_nid sl, RemoteArch remote_nid sr]))))))"

definition thread_sanity_check :: "platform \<Rightarrow> nat \<Rightarrow> int32 \<Rightarrow> int32 \<Rightarrow> int32 \<times> msg list" where
  "thread_sanity_check P h nid t =
     (case getthreadinfo_at P h of (thread_err, current_nid) \<Rightarrow>
        if thread_err \<noteq> 0 then (thread_err, [ThreadInfoFailed nid thread_err])
        else if current_nid \<noteq> nid then (- 1, [ThreadWrongNode t nid current_nid])
        else (0, []))"

text \<open>
  The state of the child while it runs: the shared \<open>struct thread\<close> behind \<open>pcn_thread\<close>,
  the local \<open>ft2c_thread_errno\<close>, and what it has printed.
\<close>

record ft2c_child =
  cthr :: thread
  cerrno :: int32
  cout :: "msg list"

definition set_done :: "ft2c_child \<Rightarrow> ft2c_child" where
  "set_done c = c\<lparr>cthr := (cthr c)\<lparr>done_flag := 1\<rparr>\<rparr>"

definition say :: "msg list \<Rightarrow> ft2c_child \<Rightarrow> ft2c_child" where
  "say ms c = c\<lparr>cout := cout c @ ms\<rparr>"

text \<open>The \<open>switch\<close> on the value of a failed \<open>migrate\<close> (the same in both programs).\<close>

definition migrate_failure_msg :: "int32 \<Rightarrow> int32 \<Rightarrow> int32 \<Rightarrow> msg" where
  "migrate_failure_msg e source_tid sink =
     (if e = - EINVAL then MigInvalidDest source_tid sink
      else if e = - EBUSY then MigAlreadyThere source_tid sink
      else if e = - EAGAIN then MigOffline source_tid sink
      else MigOther source_tid e)"

text \<open>ft2c.c lines 272 to 306: the hop back and the final verification.\<close>

definition child_return_hop :: "platform \<Rightarrow> int32 \<Rightarrow> ft2c_child \<Rightarrow> fault + ft2c_child" where
  "child_return_hop P source_tid c =
     (let c1 = say [ArrivedBack] (c\<lparr>cerrno := migrate_ret P 1\<rparr>);
          temp_tid = gettid_at P 2
      in if temp_tid = - 1
         then Inr (set_done ((say [TidNotPositive temp_tid] c1)\<lparr>cerrno := - 1\<rparr>))
         else if temp_tid \<noteq> source_tid
         then Inr (set_done ((say [TidMismatch temp_tid source_tid] c1)\<lparr>cerrno := - 1\<rparr>))
         else (case node_sanity_check P 2 (source_nid (cthr c1)) (sink_nid (cthr c1)) of
                 Inl f \<Rightarrow> Inl f
               | Inr (e, ms) \<Rightarrow>
                   (let c2 = (say (ThreadIdIs source_tid # ms) c1)\<lparr>cerrno := e\<rparr>
                    in if e \<noteq> 0 then Inr (set_done c2)
                       else Inr (set_done (say [ThreadPassed source_tid (source_nid (cthr c2))] c2)))))"

text \<open>ft2c.c lines 217 to 259: the hop out and the thread id at the sink.\<close>

definition child_outbound_hop :: "platform \<Rightarrow> int32 \<Rightarrow> ft2c_child \<Rightarrow> fault + ft2c_child" where
  "child_outbound_hop P source_tid c =
     (let e = migrate_ret P 0;
          c1 = (if e \<noteq> 0
                then set_done (say [migrate_failure_msg e source_tid (sink_nid (cthr c))] (c\<lparr>cerrno := e\<rparr>))
                else c\<lparr>cerrno := e\<rparr>)
      in if done_flag (cthr c1) \<noteq> 0 then Inr c1
         else (let sink_tid = gettid_at P 1
               in if sink_tid = - 1
                  then Inr (set_done ((say [TidNotPositive sink_tid] c1)\<lparr>cerrno := - 1\<rparr>))
                  else child_return_hop P source_tid c1))"

text \<open>
  \<open>child_thread\<close> of ft2c.c. The barrier wait of line 190 pairs with that of \<open>main\<close>
  (two parties); everything after it runs while \<open>main\<close> spins on \<open>done\<close>.
\<close>

definition child_thread :: "platform \<Rightarrow> thread \<Rightarrow> fault + ft2c_child" where
  "child_thread P t =
     (let c0 = \<lparr>cthr = t, cerrno = 0, cout = []\<rparr>;
          source_tid = gettid_at P 0
      in if source_tid = - 1
         then Inr (set_done ((say [TidNotPositive source_tid] c0)\<lparr>cerrno := - 1\<rparr>))
         else (let c1 = (say [ThreadIdIs source_tid] c0)\<lparr>cthr := (cthr c0)\<lparr>tid := source_tid\<rparr>\<rparr>
               in case node_sanity_check P 0 (source_nid (cthr c1)) (sink_nid (cthr c1)) of
                    Inl f \<Rightarrow> Inl f
                  | Inr (e, ms) \<Rightarrow>
                      (let c2 = (say ms c1)\<lparr>cerrno := e\<rparr>
                       in if e \<noteq> 0 then Inr (set_done c2)
                          else (case thread_sanity_check P 0 (source_nid (cthr c2)) source_tid of
                                  (e', ms') \<Rightarrow>
                                    (let c3 = (say ms' c2)\<lparr>cerrno := e'\<rparr>
                                     in if e' \<noteq> 0 then Inr (set_done c3)
                                        else child_outbound_hop P source_tid c3)))))"

text \<open>
  How a run of \<open>main\<close> ends: it returns a value, it never leaves a polling loop or a
  barrier, or it reaches behaviour that C does not define.
\<close>

datatype outcome = Exit int32 | Hang | Undefined fault

record run =
  r_out :: "event list"
  r_outcome :: outcome

text \<open>
  \<open>main\<close> of ft2c.c (the x86-64 branch). \<open>pthread_join\<close> is given the address of
  \<open>errno_ptr\<close>, so the value returned by the child, always \<open>NULL\<close>, lands in that pointer
  variable and \<open>ft2c_errno\<close> keeps the 0 left by \<open>posix_memalign\<close>. The field \<open>tid\<close> of
  the fresh \<open>struct thread\<close> is not initialised by \<open>main\<close>.
\<close>

definition ft2c_main :: "system \<Rightarrow> string list \<Rightarrow> run" where
  "ft2c_main S argv =
     (let source_pid = main_tid S in
      if source_pid = - 1 then \<lparr>r_out = [Printf (PidNotPositive source_pid)], r_outcome = Exit (- 1)\<rparr>
      else
        (let out1 = (if length argv \<noteq> 3 then [Printf UsageArgs] else []) @ [Printf (ProcessIdIs source_pid)]
         in case argv_get argv 1 of Inl f \<Rightarrow> \<lparr>r_out = out1, r_outcome = Undefined f\<rparr> | Inr a1 \<Rightarrow>
           (case argv_get argv 2 of Inl f \<Rightarrow> \<lparr>r_out = out1, r_outcome = Undefined f\<rparr> | Inr a2 \<Rightarrow>
             (let source_node = atoi a1; sink_node = atoi a2
              in case check_nodes source_node sink_node of
                   Some m \<Rightarrow> \<lparr>r_out = out1 @ [Printf m], r_outcome = Exit (- 1)\<rparr>
                 | None \<Rightarrow>
                     (let ft2c_errno = memalign_ret S 0; out2 = out1 @ [Call_posix_memalign]
                      in if ft2c_errno \<noteq> 0
                         then \<lparr>r_out = out2 @ [Printf (InitFailed ft2c_errno)], r_outcome = Exit ft2c_errno\<rparr>
                         else
                           (let t0 = \<lparr>tid = fresh_tid S, source_nid = source_node,
                                      sink_nid = sink_node, done_flag = 0\<rparr>;
                                out3 = out2 @ [Call_barrier_init 2, Call_pthread_create]
                            in case child_thread (child S 0) t0 of
                                 Inl f \<Rightarrow> \<lparr>r_out = out3, r_outcome = Undefined f\<rparr>
                               | Inr c \<Rightarrow>
                                   if done_flag (cthr c) = 0
                                   then \<lparr>r_out = out3 @ map Printf (cout c), r_outcome = Hang\<rparr>
                                   else \<lparr>r_out = out3 @ map Printf (cout c) @
                                            [Call_pthread_join,
                                             Printf (ThreadExited source_node (tid (cthr c)) ft2c_errno),
                                             Call_free,
                                             Printf (TestPassed source_node)],
                                          r_outcome = Exit ft2c_errno\<rparr>))))))"

section \<open>tnd: threads that never die\<close>

text \<open>
  \<open>struct thread\<close> of tnd.c: the fields of ft2c.c and three more. \<open>arch_types\<close> is an
  array of two \<open>int\<close>.
\<close>

record thread_tnd = thread +
  err :: int32
  flag :: int32
  arch_types :: "int32 list"

definition arch_types_get :: "int32 list \<Rightarrow> int32 \<Rightarrow> fault + int32" where
  "arch_types_get a i =
     (if 0 \<le>s i \<and> nat (sint i) < length a then Inr (a ! nat (sint i)) else Inl OutOfBounds)"

definition arch_types_set :: "int32 list \<Rightarrow> int32 \<Rightarrow> int32 \<Rightarrow> fault + int32 list" where
  "arch_types_set a i v =
     (if 0 \<le>s i \<and> nat (sint i) < length a then Inr (a[nat (sint i) := v]) else Inl OutOfBounds)"

text \<open>
  \<open>node_sanity_check\<close> of tnd.c: the value returned, the array \<open>arch_types\<close> after the
  call and the lines printed. The two stores of lines 173 and 174 index the array with
  the node ids.
\<close>

definition node_sanity_check_tnd ::
  "platform \<Rightarrow> nat \<Rightarrow> int32 \<Rightarrow> int32 \<Rightarrow> int32 list \<Rightarrow> fault + (int32 \<times> int32 list \<times> msg list)" where
  "node_sanity_check_tnd P h local_nid remote_nid a =
     (case getnodeinfo_at P h of (node_err, current_nid, pnodes) \<Rightarrow>
        if node_err \<noteq> 0 then Inr (node_err, a, [NodeInfoFailed current_nid node_err])
        else if current_nid \<noteq> local_nid then Inr (- 1, a, [WrongNode local_nid current_nid])
        else (case pnodes_get TND_NODES pnodes local_nid of Inl f \<Rightarrow> Inl f | Inr pl \<Rightarrow>
          if status pl = NODE_OFFLINE then Inr (- 1, a, [NodeOffline local_nid])
          else (case pnodes_get TND_NODES pnodes remote_nid of Inl f \<Rightarrow> Inl f | Inr pr \<Rightarrow>
            if status pr = NODE_OFFLINE then Inr (- 1, a, [NodeOffline remote_nid])
            else (case arch_types_set a local_nid (arch pl + 1) of Inl f \<Rightarrow> Inl f | Inr a1 \<Rightarrow>
              (case arch_types_set a1 remote_nid (arch pr + 1) of Inl f \<Rightarrow> Inl f | Inr a2 \<Rightarrow>
                 Inr (0, a2, []))))))"

text \<open>
  The child of tnd.c runs concurrently with its siblings and with \<open>main\<close>, so it is a
  machine that takes one step at a time. The program points:
  \<^item> \<open>Entry\<close>: lines 205 to 220, the locals and the first \<open>gettid\<close>;
  \<^item> \<open>SanityCheck\<close>: lines 222 to 227;
  \<^item> \<open>MigrateOut\<close>: the head of \<open>while(1)\<close>, lines 239 to 269;
  \<^item> \<open>AtSink\<close>: lines 273 to 286;
  \<^item> \<open>MigrateBack\<close>: lines 295 to 299;
  \<^item> \<open>Sleeping\<close>: line 302, then back to the head of the loop;
  \<^item> \<open>Returned\<close>: after a \<open>return NULL\<close>;
  \<^item> \<open>Undefined_at\<close>: after an access that C does not define.
\<close>

datatype tnd_pc =
  Entry | SanityCheck | MigrateOut | AtSink | MigrateBack | Sleeping | Returned | Undefined_at fault

text \<open>
  The struct behind \<open>current_thread\<close>, the locals (not read before \<open>Entry\<close> has assigned
  them), the number of \<open>migrate\<close> calls made, and the output of this thread.
\<close>

record tnd_child =
  tpc :: tnd_pc
  tthr :: thread_tnd
  source_tid :: int32
  sink_tid :: int32
  rnode :: int32
  snode :: int32
  thops :: nat
  tout :: "event list"

text \<open>
  One step of \<open>child_thread\<close> of tnd.c on the shared counter \<open>all_done\<close> and the state of
  the thread. Every \<open>return NULL\<close> is preceded by \<open>all_done++\<close>.
\<close>

definition child_step :: "platform \<Rightarrow> int32 \<times> tnd_child \<Rightarrow> int32 \<times> tnd_child" where
  "child_step P x =
     (case x of (all_done, c) \<Rightarrow>
        (case tpc c of
           Entry \<Rightarrow>
             (let st = gettid_at P (thops c);
                  c1 = c\<lparr>source_tid := st, rnode := sink_nid (tthr c), snode := source_nid (tthr c)\<rparr>
              in if st = - 1
                 then (all_done + 1,
                       c1\<lparr>tthr := (tthr c1)\<lparr>err := - 1, done_flag := 1\<rparr>,
                          tout := tout c1 @ [Printf (TidNotPositive st)], tpc := Returned\<rparr>)
                 else (all_done, c1\<lparr>tthr := (tthr c1)\<lparr>tid := st\<rparr>, tpc := SanityCheck\<rparr>))
         | SanityCheck \<Rightarrow>
             (case node_sanity_check_tnd P (thops c) (snode c) (rnode c) (arch_types (tthr c)) of
                Inl f \<Rightarrow> (all_done, c\<lparr>tpc := Undefined_at f\<rparr>)
              | Inr (e, a, ms) \<Rightarrow>
                  (let c1 = c\<lparr>tthr := (tthr c)\<lparr>err := e, arch_types := a\<rparr>,
                              tout := tout c @ map Printf ms\<rparr>
                   in if e \<noteq> 0
                      then (all_done + 1, c1\<lparr>tthr := (tthr c1)\<lparr>done_flag := 1\<rparr>, tpc := Returned\<rparr>)
                      else (all_done, c1\<lparr>tpc := MigrateOut\<rparr>)))
         | MigrateOut \<Rightarrow>
             (let e = migrate_ret P (thops c);
                  c1 = c\<lparr>tthr := (tthr c)\<lparr>err := e\<rparr>, thops := Suc (thops c)\<rparr>;
                  c2 = (if e \<noteq> 0
                        then c1\<lparr>tthr := (tthr c1)\<lparr>done_flag := 1\<rparr>,
                                tout := tout c1 @
                                  [Printf (migrate_failure_msg e (source_tid c1) (sink_nid (tthr c1)))]\<rparr>
                        else c1)
              in if done_flag (tthr c2) \<noteq> 0 then (all_done + 1, c2\<lparr>tpc := Returned\<rparr>)
                 else (all_done, c2\<lparr>tpc := AtSink\<rparr>))
         | AtSink \<Rightarrow>
             (let kt = gettid_at P (thops c);
                  c1 = c\<lparr>sink_tid := kt, tthr := (tthr c)\<lparr>flag := kt\<rparr>\<rparr>
              in if kt = - 1
                 then (all_done + 1,
                       c1\<lparr>tthr := (tthr c1)\<lparr>err := - 1, done_flag := 1\<rparr>,
                          tout := tout c1 @ [Printf (TidNotPositive kt)], tpc := Returned\<rparr>)
                 else (case arch_types_get (arch_types (tthr c1)) (rnode c1) of
                         Inl f \<Rightarrow> (all_done, c1\<lparr>tpc := Undefined_at f\<rparr>)
                       | Inr ai \<Rightarrow>
                           (case arch_sz_get ai of
                              Inl f \<Rightarrow> (all_done, c1\<lparr>tpc := Undefined_at f\<rparr>)
                            | Inr nm \<Rightarrow>
                                (all_done, c1\<lparr>tout := tout c1 @ [Printf (TouchedSink kt nm)],
                                              tpc := MigrateBack\<rparr>))))
         | MigrateBack \<Rightarrow>
             (let e = migrate_ret P (thops c);
                  c1 = c\<lparr>tthr := (tthr c)\<lparr>err := e\<rparr>, thops := Suc (thops c)\<rparr>
              in case arch_types_get (arch_types (tthr c1)) (snode c1) of
                   Inl f \<Rightarrow> (all_done, c1\<lparr>tpc := Undefined_at f\<rparr>)
                 | Inr ai \<Rightarrow>
                     (case arch_sz_get ai of
                        Inl f \<Rightarrow> (all_done, c1\<lparr>tpc := Undefined_at f\<rparr>)
                      | Inr nm \<Rightarrow>
                          (all_done, c1\<lparr>tout := tout c1 @ [Printf (TouchedSource (source_tid c1) nm)],
                                        tpc := Sleeping\<rparr>)))
         | Sleeping \<Rightarrow> (all_done, c\<lparr>tout := tout c @ [Sleep 1], tpc := MigrateOut\<rparr>)
         | Returned \<Rightarrow> x
         | Undefined_at f \<Rightarrow> x))"

text \<open>The thread running alone for \<open>n\<close> steps.\<close>

definition child_run :: "platform \<Rightarrow> nat \<Rightarrow> int32 \<times> tnd_child \<Rightarrow> int32 \<times> tnd_child" where
  "child_run P n x = (child_step P ^^ n) x"

text \<open>
  The struct as the loop of \<open>main\<close> (lines 353 to 361) fills it in, and the thread that
  \<open>pthread_create\<close> starts on it.
\<close>

definition new_thread :: "int32 \<Rightarrow> int32 \<Rightarrow> thread_tnd" where
  "new_thread source_node sink_node =
     \<lparr>tid = 0, source_nid = source_node, sink_nid = sink_node, done_flag = 0,
      err = 0, flag = 0, arch_types = [0, 0]\<rparr>"

definition new_child :: "thread_tnd \<Rightarrow> tnd_child" where
  "new_child t =
     \<lparr>tpc = Entry, tthr = t, source_tid = 0, sink_tid = 0, rnode = 0, snode = 0,
      thops = 0, tout = []\<rparr>"

subsection \<open>The coordinator and the interleaving\<close>

text \<open>
  The program points of \<open>main\<close> after \<open>__init_thread_params\<close>:
  \<^item> \<open>M_Create\<close>: the loop of lines 352 to 364;
  \<^item> \<open>M_Barrier1\<close>, \<open>M_Blocked1\<close>: the \<open>pthread_barrier_wait\<close> of line 366, before and
    after arriving;
  \<^item> \<open>M_Poll_gcount\<close>: line 368;
  \<^item> \<open>M_Barrier2\<close>, \<open>M_Blocked2\<close>: line 370;
  \<^item> \<open>M_Poll_all_done\<close>: line 372;
  \<^item> \<open>M_Join\<close>: the loop of lines 374 to 380;
  \<^item> \<open>M_Report\<close>: lines 382 and 383;
  \<^item> \<open>M_Exited\<close>: \<open>main\<close> has returned \<open>tnd_errno\<close>;
  \<^item> \<open>M_Undefined\<close>: a wait on a barrier whose initialisation failed.
\<close>

datatype main_pc =
    M_Create | M_Barrier1 | M_Blocked1 | M_Poll_gcount | M_Barrier2 | M_Blocked2
  | M_Poll_all_done | M_Join | M_Report | M_Exited | M_Undefined

text \<open>
  The globals of tnd.c and the locals of \<open>main\<close>. \<open>threads ! k\<close> is \<open>None\<close> as long as
  the struct of task \<open>k\<close> is allocated but neither filled in nor given a thread.
\<close>

record tnd_state =
  mpc :: main_pc
  i_var :: nat
  nthreads :: int32
  all_done :: int32
  gcount :: int32
  barrier_count :: int32
  barrier_arrived :: nat
  threads :: "tnd_child option list"
  tnd_errno :: int32
  source_node :: int32
  sink_node :: int32
  mout :: "event list"

text \<open>
  \<open>pthread_barrier_wait\<close> as \<open>main\<close> calls it. \<open>pthread_barrier_init\<close> rejects a count
  that is 0 or exceeds \<open>INT_MAX\<close> as an unsigned number, \<open>main\<close> does not look at its
  return value, and a wait on the barrier it left alone is not defined. Otherwise the
  caller arrives; it goes on when it is the last of \<open>barrier_count\<close> parties and is
  blocked until another thread arrives when it is not.
\<close>

definition barrier_wait :: "main_pc \<Rightarrow> main_pc \<Rightarrow> tnd_state \<Rightarrow> tnd_state" where
  "barrier_wait passed blocked s =
     (if barrier_count s \<le>s 0 then s\<lparr>mpc := M_Undefined\<rparr>
      else if int (barrier_arrived s) + 1 = sint (barrier_count s)
      then s\<lparr>barrier_arrived := 0, mpc := passed\<rparr>
      else s\<lparr>barrier_arrived := Suc (barrier_arrived s), mpc := blocked\<rparr>)"

text \<open>
  One step of \<open>main\<close>. A blocked or spinning \<open>main\<close> makes a step that changes nothing.
  No statement of tnd.c writes \<open>gcount\<close> after line 318, and \<open>child_thread\<close> of tnd.c
  contains no \<open>pthread_barrier_wait\<close>, so nothing here or in \<open>child_step\<close> releases
  \<open>M_Blocked1\<close> or \<open>M_Blocked2\<close>.
\<close>

definition main_step :: "tnd_state \<Rightarrow> tnd_state" where
  "main_step s =
     (case mpc s of
        M_Create \<Rightarrow>
          if int (i_var s) < sint (nthreads s) \<and> i_var s < length (threads s)
          then s\<lparr>threads := (threads s)[i_var s := Some (new_child (new_thread (source_node s) (sink_node s)))],
                 mout := mout s @ [Call_pthread_create],
                 i_var := Suc (i_var s)\<rparr>
          else s\<lparr>mpc := M_Barrier1\<rparr>
      | M_Barrier1 \<Rightarrow> barrier_wait M_Poll_gcount M_Blocked1 s
      | M_Blocked1 \<Rightarrow> s
      | M_Poll_gcount \<Rightarrow> if gcount s <s nthreads s then s else s\<lparr>mpc := M_Barrier2\<rparr>
      | M_Barrier2 \<Rightarrow> barrier_wait M_Poll_all_done M_Blocked2 s
      | M_Blocked2 \<Rightarrow> s
      | M_Poll_all_done \<Rightarrow> if all_done s <s nthreads s then s else s\<lparr>mpc := M_Join, i_var := 0\<rparr>
      | M_Join \<Rightarrow>
          if int (i_var s) < sint (nthreads s) \<and> i_var s < length (threads s)
          then (case threads s ! i_var s of
                  None \<Rightarrow> s
                | Some c \<Rightarrow>
                    if tpc c = Returned
                    then s\<lparr>mout := mout s @
                             [Call_pthread_join,
                              Printf (ThreadExited (source_node s) (tid (tthr c)) (err (tthr c))),
                              Call_free],
                           i_var := Suc (i_var s)\<rparr>
                    else s)
          else s\<lparr>mpc := M_Report\<rparr>
      | M_Report \<Rightarrow> s\<lparr>mout := mout s @ [Printf (TestPassed (source_node s))], mpc := M_Exited\<rparr>
      | M_Exited \<Rightarrow> s
      | M_Undefined \<Rightarrow> s)"

text \<open>One step of task \<open>k\<close>, if it has been created and the process is still alive.\<close>

definition thread_step :: "system \<Rightarrow> nat \<Rightarrow> tnd_state \<Rightarrow> tnd_state" where
  "thread_step S k s =
     (if k < length (threads s) \<and> mpc s \<noteq> M_Exited
      then (case threads s ! k of
              None \<Rightarrow> s
            | Some c \<Rightarrow>
                (case child_step (child S k) (all_done s, c) of
                   (ad, c') \<Rightarrow> s\<lparr>all_done := ad, threads := (threads s)[k := Some c']\<rparr>))
      else s)"

text \<open>
  A schedule names, step by step, who runs next. The runs of the program are the
  executions of all schedules.
\<close>

datatype action = Main | Thread nat

definition tnd_step :: "system \<Rightarrow> tnd_state \<Rightarrow> action \<Rightarrow> tnd_state" where
  "tnd_step S s a = (case a of Main \<Rightarrow> main_step s | Thread k \<Rightarrow> thread_step S k s)"

definition tnd_exec :: "system \<Rightarrow> action list \<Rightarrow> tnd_state \<Rightarrow> tnd_state" where
  "tnd_exec S sched s = foldl (tnd_step S) s sched"

text \<open>
  The loop of \<open>__init_thread_params\<close>: the index of the first \<open>posix_memalign\<close> that
  fails among the calls numbered \<open>i\<close> to \<open>i + n - 1\<close>.
\<close>

fun alloc_loop :: "system \<Rightarrow> nat \<Rightarrow> nat \<Rightarrow> nat option" where
  "alloc_loop S i 0 = None"
| "alloc_loop S i (Suc n) = (if memalign_ret S i \<noteq> 0 then Some i else alloc_loop S (Suc i) n)"

text \<open>
  \<open>__init_thread_params\<close>: the events and either the error code returned or 0. The
  result of \<open>malloc\<close> is not checked; with a null table the first \<open>posix_memalign\<close> is
  handed a null address to write to.
\<close>

definition init_thread_params :: "system \<Rightarrow> int32 \<Rightarrow> event list \<times> (fault + int32)" where
  "init_thread_params S n =
     (let cnt = nat (sint n)
      in if malloc_null S \<and> 0 < cnt then ([Call_malloc], Inl NullPointer)
         else (case alloc_loop S 0 cnt of
                 Some k \<Rightarrow> (Call_malloc # replicate (Suc k) Call_posix_memalign, Inr (memalign_ret S k))
               | None \<Rightarrow>
                   (Call_malloc # replicate cnt Call_posix_memalign @ [Call_barrier_init (n + 1)], Inr 0)))"

text \<open>
  \<open>main\<close> of tnd.c (the x86-64 branch) up to line 351: either the run ends there, or the
  coordinator enters the creation loop in the state given.
\<close>

definition tnd_main_prologue :: "system \<Rightarrow> string list \<Rightarrow> run + tnd_state" where
  "tnd_main_prologue S argv =
     (let source_pid = main_tid S in
      if source_pid = - 1 then Inl \<lparr>r_out = [Printf (PidNotPositive source_pid)], r_outcome = Exit (- 1)\<rparr>
      else
        (let out1 = (if length argv \<noteq> 4 then [Printf UsageArgs] else []) @ [Printf (ProcessIdIs source_pid)]
         in case argv_get argv 1 of Inl f \<Rightarrow> Inl \<lparr>r_out = out1, r_outcome = Undefined f\<rparr> | Inr a1 \<Rightarrow>
           (case argv_get argv 2 of Inl f \<Rightarrow> Inl \<lparr>r_out = out1, r_outcome = Undefined f\<rparr> | Inr a2 \<Rightarrow>
             (case argv_get argv 3 of Inl f \<Rightarrow> Inl \<lparr>r_out = out1, r_outcome = Undefined f\<rparr> | Inr a3 \<Rightarrow>
               (let src = atoi a1; snk = atoi a2; n = atoi a3
                in case check_nodes src snk of
                     Some m \<Rightarrow> Inl \<lparr>r_out = out1 @ [Printf m], r_outcome = Exit (- 1)\<rparr>
                   | None \<Rightarrow>
                       (case init_thread_params S n of
                          (evs, Inl f) \<Rightarrow> Inl \<lparr>r_out = out1 @ evs, r_outcome = Undefined f\<rparr>
                        | (evs, Inr e) \<Rightarrow>
                            if e \<noteq> 0
                            then Inl \<lparr>r_out = out1 @ evs @ [Printf (InitFailed e)], r_outcome = Exit e\<rparr>
                            else Inr \<lparr>mpc = M_Create, i_var = 0, nthreads = n, all_done = 0,
                                      gcount = 0, barrier_count = n + 1, barrier_arrived = 0,
                                      threads = replicate (nat (sint n)) None, tnd_errno = e,
                                      source_node = src, sink_node = snk,
                                      mout = out1 @ evs\<rparr>))))))"

section \<open>Predicates on runs and concrete environments\<close>

text \<open>No task has been allocated or started: the trace holds no allocation and no thread creation.\<close>

definition no_task_started :: "event list \<Rightarrow> bool" where
  "no_task_started evs =
     (Call_malloc \<notin> set evs \<and> Call_posix_memalign \<notin> set evs \<and> Call_pthread_create \<notin> set evs)"

definition exits_nonzero :: "run \<Rightarrow> bool" where
  "exits_nonzero r = (case r_outcome r of Exit e \<Rightarrow> e \<noteq> 0 | _ \<Rightarrow> False)"

text \<open>The run ends with the diagnostic \<open>m\<close> and a non-zero exit code before any task exists.\<close>

definition rejected_with :: "msg \<Rightarrow> run \<Rightarrow> bool" where
  "rejected_with m r =
     (exits_nonzero r \<and> r_out r \<noteq> [] \<and> last (r_out r) = Printf m \<and> no_task_started (r_out r))"

text \<open>A configuration error: one of the two diagnostics of the argument validation.\<close>

definition config_rejected :: "run \<Rightarrow> bool" where
  "config_rejected r = (rejected_with SameNode r \<or> rejected_with NodeRange r)"

definition in_range :: "int32 \<Rightarrow> bool" where
  "in_range x = (0 \<le>s x \<and> x <s MAX_POPCORN_NODES)"







text \<open>The program points from which \<open>main\<close> of tnd.c joins the tasks and reports.\<close>

definition past_gcount_poll :: "main_pc \<Rightarrow> bool" where
  "past_gcount_poll p =
     (p = M_Barrier2 \<or> p = M_Blocked2 \<or> p = M_Poll_all_done \<or> p = M_Join \<or> p = M_Report \<or> p = M_Exited)"

subsection \<open>Concrete environments\<close>

text \<open>Every node online and of architecture x86; the thread is at node 0 after an even number of hops.\<close>

definition node_on :: popcorn_node_status where
  "node_on = \<lparr>status = 1, arch = 1\<rparr>"

definition P_ok :: platform where
  "P_ok = \<lparr>gettid_at = (\<lambda>k. 100), migrate_ret = (\<lambda>k. 0),
           getnodeinfo_at = (\<lambda>k. (0, if even k then 0 else 1, \<lambda>n. node_on)),
           getthreadinfo_at = (\<lambda>k. (0, if even k then 0 else 1))\<rparr>"

definition S_ok :: system where
  "S_ok = \<lparr>main_tid = 99, memalign_ret = (\<lambda>k. 0), malloc_null = False, fresh_tid = 0,
           child = (\<lambda>k. P_ok)\<rparr>"

text \<open>The sink is offline for the first hop: \<open>migrate\<close> returns \<open>-EAGAIN\<close> at once.\<close>

definition P_out_offline :: platform where
  "P_out_offline = P_ok\<lparr>migrate_ret := (\<lambda>k. - EAGAIN)\<rparr>"

definition S_out_offline :: system where
  "S_out_offline = S_ok\<lparr>child := (\<lambda>k. P_out_offline)\<rparr>"

text \<open>
  The hop out succeeds, the hop back returns \<open>-EAGAIN\<close>, and the thread stays where it
  is: at node 1, with its thread id.
\<close>

definition P_back_offline :: platform where
  "P_back_offline =
     \<lparr>gettid_at = (\<lambda>k. 100), migrate_ret = (\<lambda>k. if k = 0 then 0 else - EAGAIN),
      getnodeinfo_at = (\<lambda>k. (0, if k = 0 then 0 else 1, \<lambda>n. node_on)),
      getthreadinfo_at = (\<lambda>k. (0, if k = 0 then 0 else 1))\<rparr>"

definition S_back_offline :: system where
  "S_back_offline = S_ok\<lparr>child := (\<lambda>k. P_back_offline)\<rparr>"

text \<open>The thread comes back from the round trip under another thread id.\<close>

definition P_tid_changes :: platform where
  "P_tid_changes = P_ok\<lparr>gettid_at := (\<lambda>k. if k = 2 then 999 else 100)\<rparr>"

text \<open>The lines that the two sanity checks of ft2c.c can print.\<close>

definition check_msg :: "msg \<Rightarrow> bool" where
  "check_msg m =
     (case m of
        NodeInfoFailed a b \<Rightarrow> True | WrongNode a b \<Rightarrow> True | NodeOffline a \<Rightarrow> True
      | LocalArch a n \<Rightarrow> True | RemoteArch a n \<Rightarrow> True
      | ThreadInfoFailed a b \<Rightarrow> True | ThreadWrongNode a b d \<Rightarrow> True
      | _ \<Rightarrow> False)"

text \<open>The struct that \<open>main\<close> of ft2c.c hands to the child for the nodes 0 and 1.\<close>

definition t_01 :: thread where
  "t_01 = \<lparr>tid = 0, source_nid = 0, sink_nid = 1, done_flag = 0\<rparr>"

text \<open>The child of ft2c.c after a round trip that changed the thread id from 100 to 999.\<close>

definition c_mismatch :: ft2c_child where
  "c_mismatch =
     \<lparr>cthr = \<lparr>tid = 100, source_nid = 0, sink_nid = 1, done_flag = 1\<rparr>,
      cerrno = - 1,
      cout = [ThreadIdIs 100, LocalArch 0 (Some ''x86-64''), RemoteArch 1 (Some ''x86-64''),
              ArrivedBack, TidMismatch 999 100]\<rparr>"

text \<open>The coordinator of tnd.c entering the creation loop for two tasks between the nodes 0 and 1.\<close>

definition s0_two :: tnd_state where
  "s0_two =
     \<lparr>mpc = M_Create, i_var = 0, nthreads = 2, all_done = 0, gcount = 0,
      barrier_count = 3, barrier_arrived = 0, threads = [None, None],
      tnd_errno = 0, source_node = 0, sink_node = 1,
      mout = [Printf (ProcessIdIs 99), Call_malloc, Call_posix_memalign,
              Call_posix_memalign, Call_barrier_init 3]\<rparr>"

lemmas model_defs =
  EINVAL_def EBUSY_def EAGAIN_def MAX_POPCORN_NODES_def FT2C_NODES_def TND_NODES_def
  NODE_OFFLINE_def
  arch_sz_def arch_sz_get_def pnodes_get_def argv_get_def isspace_def isdigit_def
  digits_value_def atoi_def check_nodes_def node_sanity_check_def thread_sanity_check_def
  set_done_def say_def migrate_failure_msg_def child_return_hop_def child_outbound_hop_def
  child_thread_def ft2c_main_def arch_types_get_def arch_types_set_def
  node_sanity_check_tnd_def child_step_def new_thread_def new_child_def barrier_wait_def
  main_step_def thread_step_def tnd_step_def tnd_exec_def init_thread_params_def
  tnd_main_prologue_def word_sle_eq word_sless_alt

lemmas env_defs =
  node_on_def P_ok_def S_ok_def P_out_offline_def S_out_offline_def P_back_offline_def
  S_back_offline_def P_tid_changes_def

lemmas pred_defs =
  no_task_started_def exits_nonzero_def rejected_with_def config_rejected_def in_range_def

section \<open>Argument validation: what is rejected\<close>

lemma sless_zero_bit: "(a::int32) <s 0 \<longleftrightarrow> bit a 31"
  using bit_last_iff[of a] by (simp add: word_sless_alt)

lemma or_sless_zero: "((a::int32) OR b) <s 0 \<longleftrightarrow> a <s 0 \<or> b <s 0"
  by (simp add: sless_zero_bit bit_or_iff)

lemma check_nodes_None:
  "check_nodes a b = None \<longleftrightarrow> a \<noteq> b \<and> in_range a \<and> in_range b"
  unfolding check_nodes_def in_range_def or_sless_zero
  by (auto simp: MAX_POPCORN_NODES_def word_sless_alt word_sle_eq)

lemma check_nodes_Same: "check_nodes a b = Some SameNode \<longleftrightarrow> a = b"
  by (auto simp: check_nodes_def)

lemma check_nodes_Range:
  "check_nodes a b = Some NodeRange \<longleftrightarrow> a \<noteq> b \<and> (\<not> in_range a \<or> \<not> in_range b)"
  unfolding check_nodes_def in_range_def or_sless_zero
  by (auto simp: MAX_POPCORN_NODES_def word_sless_alt word_sle_eq)

lemma ft2c_main_rejected:
  assumes "main_tid S \<noteq> - 1" "argv_get argv 1 = Inr a" "argv_get argv 2 = Inr b"
    "check_nodes (atoi a) (atoi b) = Some m"
  shows "ft2c_main S argv =
    \<lparr>r_out = (if length argv \<noteq> 3 then [Printf UsageArgs] else []) @
              [Printf (ProcessIdIs (main_tid S)), Printf m], r_outcome = Exit (- 1)\<rparr>"
  using assms by (simp add: ft2c_main_def)

lemma ft2c_main_accepted:
  assumes "main_tid S \<noteq> - 1" "argv_get argv 1 = Inr a" "argv_get argv 2 = Inr b"
    "check_nodes (atoi a) (atoi b) = None"
  shows "Call_posix_memalign \<in> set (r_out (ft2c_main S argv))"
  using assms by (simp add: ft2c_main_def Let_def split: sum.splits)

lemma tnd_prologue_rejected:
  assumes "main_tid S \<noteq> - 1" "argv_get argv 1 = Inr a" "argv_get argv 2 = Inr b"
    "argv_get argv 3 = Inr n" "check_nodes (atoi a) (atoi b) = Some m"
  shows "tnd_main_prologue S argv =
    Inl \<lparr>r_out = (if length argv \<noteq> 4 then [Printf UsageArgs] else []) @
              [Printf (ProcessIdIs (main_tid S)), Printf m], r_outcome = Exit (- 1)\<rparr>"
  using assms by (simp add: tnd_main_prologue_def)

lemma tnd_prologue_accepted:
  assumes "main_tid S \<noteq> - 1" "argv_get argv 1 = Inr a" "argv_get argv 2 = Inr b"
    "argv_get argv 3 = Inr n" "check_nodes (atoi a) (atoi b) = None"
    "tnd_main_prologue S argv = Inl r"
  shows "Call_malloc \<in> set (r_out r)"
  using assms
  by (auto simp: tnd_main_prologue_def init_thread_params_def Let_def
           split: sum.splits if_splits option.splits prod.splits)

lemma ft2c_main_pid_failed:
  assumes "main_tid S = - 1"
  shows "ft2c_main S argv = \<lparr>r_out = [Printf (PidNotPositive (- 1))], r_outcome = Exit (- 1)\<rparr>"
  using assms by (simp add: ft2c_main_def Let_def)

lemma tnd_prologue_pid_failed:
  assumes "main_tid S = - 1"
  shows "tnd_main_prologue S argv = Inl \<lparr>r_out = [Printf (PidNotPositive (- 1))], r_outcome = Exit (- 1)\<rparr>"
  using assms by (simp add: tnd_main_prologue_def Let_def)

lemma argv_get_3: "3 < length argv \<Longrightarrow> argv_get argv 3 = Inr (argv ! 3)"
  by (simp add: argv_get_def)

text \<open>
  Claim C3. When the source and the sink argument denote the same node id, the run ends
  with the diagnostic "Source Node ID must be different to Sink Node ID" and the exit
  code -1, and the trace holds no allocation and no thread creation. This holds for
  ft2c, and for tnd whenever the third argument, which tnd reads before the test, is
  there. Should \<open>gettid\<close> have failed for the main thread, the run has ended even
  earlier, with the diagnostic of that failure and the same exit code.
\<close>

theorem equal_node_ids_rejected:
  assumes "argv_get argv 1 = Inr a" "argv_get argv 2 = Inr b" and "atoi a = atoi b"
  shows "rejected_with (if main_tid S = - 1 then PidNotPositive (- 1) else SameNode) (ft2c_main S argv) \<and>
         (3 < length argv \<longrightarrow>
            (\<exists>r. tnd_main_prologue S argv = Inl r \<and>
                 rejected_with (if main_tid S = - 1 then PidNotPositive (- 1) else SameNode) r))"
proof (cases "main_tid S = - 1")
  case True
  then show ?thesis
    by (simp add: ft2c_main_pid_failed tnd_prologue_pid_failed rejected_with_def exits_nonzero_def
        no_task_started_def)
next
  case False
  have c: "check_nodes (atoi a) (atoi b) = Some SameNode"
    using assms(3) by (simp add: check_nodes_Same)
  have "rejected_with SameNode (ft2c_main S argv)"
    by (simp add: ft2c_main_rejected[OF False assms(1,2) c] rejected_with_def exits_nonzero_def
        no_task_started_def)
  moreover have "\<exists>r. tnd_main_prologue S argv = Inl r \<and> rejected_with SameNode r"
    if "3 < length argv"
    by (simp add: tnd_prologue_rejected[OF False assms(1,2) argv_get_3[OF that] c]
        rejected_with_def exits_nonzero_def no_task_started_def)
  ultimately show ?thesis using False by simp
qed

theorem equal_node_ids_rejected_witness:
  "rejected_with SameNode (ft2c_main S_ok [''tnd'', ''1'', ''1'', ''4'']) \<and>
   (\<exists>r. tnd_main_prologue S_ok [''tnd'', ''1'', ''1'', ''4''] = Inl r \<and> rejected_with SameNode r)"
proof -
  have h1: "main_tid S_ok \<noteq> - 1" by (simp add: S_ok_def)
  have h2: "argv_get [''tnd'', ''1'', ''1'', ''4''] 1 = Inr ''1''" by (simp add: argv_get_def)
  have h3: "argv_get [''tnd'', ''1'', ''1'', ''4''] 2 = Inr ''1''" by (simp add: argv_get_def)
  have h4: "atoi ''1'' = atoi ''1''" by simp
  show ?thesis using equal_node_ids_rejected[OF h2 h3 h4, of S_ok] h1 by simp
qed

text \<open>
  Claim C4, as stated: the run is rejected before any task is created exactly when
  some id lies outside the range. With both ids 0 the run is rejected although both
  lie in the range: the test for equal ids comes first.
\<close>

theorem range_test_counterexample:
  "\<not> (config_rejected (ft2c_main S_ok [''ft2c'', ''0'', ''0'']) \<longleftrightarrow>
       \<not> in_range (atoi ''0'') \<or> \<not> in_range (atoi ''0''))"
  by (simp add: model_defs env_defs pred_defs)

text \<open>
  Claim C4, amended. Once the main thread has its id and the two arguments are there,
  the argument validation rejects the run, before any task is created, exactly when
  the two ids are equal or some id lies outside \<open>[0, MAX_POPCORN_NODES)\<close>; the range
  diagnostic is the one printed exactly when the ids differ and some id lies outside;
  and the sign test on \<open>source | sink\<close> holds exactly when one of the two ids is
  negative.
\<close>

theorem validation_rejects_iff:
  assumes "main_tid S \<noteq> - 1" "argv_get argv 1 = Inr a" "argv_get argv 2 = Inr b"
  shows "(config_rejected (ft2c_main S argv) \<longleftrightarrow>
            atoi a = atoi b \<or> \<not> in_range (atoi a) \<or> \<not> in_range (atoi b)) \<and>
         (3 < length argv \<longrightarrow>
            ((\<exists>r. tnd_main_prologue S argv = Inl r \<and> config_rejected r) \<longleftrightarrow>
             atoi a = atoi b \<or> \<not> in_range (atoi a) \<or> \<not> in_range (atoi b))) \<and>
         (check_nodes (atoi a) (atoi b) = Some NodeRange \<longleftrightarrow>
            atoi a \<noteq> atoi b \<and> (\<not> in_range (atoi a) \<or> \<not> in_range (atoi b))) \<and>
         ((atoi a OR atoi b) <s 0 \<longleftrightarrow> atoi a <s 0 \<or> atoi b <s 0)"
proof -
  let ?bad = "atoi a = atoi b \<or> \<not> in_range (atoi a) \<or> \<not> in_range (atoi b)"
  have cases: "check_nodes (atoi a) (atoi b) = None \<and> \<not> ?bad \<or>
               (\<exists>m. check_nodes (atoi a) (atoi b) = Some m \<and> (m = SameNode \<or> m = NodeRange) \<and> ?bad)"
    using check_nodes_None[of "atoi a" "atoi b"] check_nodes_Same[of "atoi a" "atoi b"]
      check_nodes_Range[of "atoi a" "atoi b"]
    by (cases "check_nodes (atoi a) (atoi b)") (auto simp: check_nodes_def split: if_splits)
  have ft2c: "config_rejected (ft2c_main S argv) \<longleftrightarrow> ?bad"
  proof (cases "check_nodes (atoi a) (atoi b)")
    case None
    have "\<not> no_task_started (r_out (ft2c_main S argv))"
      using ft2c_main_accepted[OF assms None] by (simp add: no_task_started_def)
    then show ?thesis using cases None by (simp add: config_rejected_def rejected_with_def)
  next
    case (Some m)
    then show ?thesis using cases
      by (auto simp: ft2c_main_rejected[OF assms Some] config_rejected_def rejected_with_def
          exits_nonzero_def no_task_started_def)
  qed
  have tnd: "(\<exists>r. tnd_main_prologue S argv = Inl r \<and> config_rejected r) \<longleftrightarrow> ?bad"
    if len: "3 < length argv"
  proof (cases "check_nodes (atoi a) (atoi b)")
    case None
    have "\<not> no_task_started (r_out r)" if "tnd_main_prologue S argv = Inl r" for r
      using tnd_prologue_accepted[OF assms argv_get_3[OF len] None that]
      by (simp add: no_task_started_def)
    then show ?thesis using cases None by (auto simp: config_rejected_def rejected_with_def)
  next
    case (Some m)
    then show ?thesis using cases
      by (auto simp: tnd_prologue_rejected[OF assms argv_get_3[OF len] Some] config_rejected_def
          rejected_with_def exits_nonzero_def no_task_started_def)
  qed
  show ?thesis
    using ft2c tnd check_nodes_Range[of "atoi a" "atoi b"] or_sless_zero[of "atoi a" "atoi b"]
    by blast
qed

theorem validation_rejects_iff_witness:
  "(config_rejected (ft2c_main S_ok [''tnd'', ''0'', ''32'', ''1'']) \<longleftrightarrow>
      atoi ''0'' = atoi ''32'' \<or> \<not> in_range (atoi ''0'') \<or> \<not> in_range (atoi ''32'')) \<and>
   ((\<exists>r. tnd_main_prologue S_ok [''tnd'', ''0'', ''32'', ''1''] = Inl r \<and> config_rejected r) \<longleftrightarrow>
      atoi ''0'' = atoi ''32'' \<or> \<not> in_range (atoi ''0'') \<or> \<not> in_range (atoi ''32'')) \<and>
   \<not> in_range (atoi ''32'')"
proof -
  have h1: "main_tid S_ok \<noteq> - 1" by (simp add: S_ok_def)
  have h2: "argv_get [''tnd'', ''0'', ''32'', ''1''] 1 = Inr ''0''" by (simp add: argv_get_def)
  have h3: "argv_get [''tnd'', ''0'', ''32'', ''1''] 2 = Inr ''32''" by (simp add: argv_get_def)
  have h4: "\<not> in_range (atoi ''32'')" by (simp add: model_defs in_range_def)
  show ?thesis using validation_rejects_iff[OF h1 h2 h3] h4 by simp
qed

section \<open>The exit code and the verdict of the task\<close>

text \<open>
  Once \<open>main\<close> of ft2c.c has created the child, whatever the child meets, a run that
  ends by returning from \<open>main\<close> returns 0.
\<close>

lemma ft2c_exit_code_after_create:
  assumes "Call_pthread_create \<in> set (r_out (ft2c_main S argv))"
    "r_outcome (ft2c_main S argv) = Exit e"
  shows "e = 0"
proof (cases "main_tid S = - 1")
  case True
  then show ?thesis using assms(1) by (simp add: ft2c_main_def Let_def)
next
  case False
  show ?thesis
  proof (cases "argv_get argv 1")
    case (Inl f)
    then show ?thesis using assms(2) False by (simp add: ft2c_main_def Let_def)
  next
    case a1: (Inr a1)
    show ?thesis
    proof (cases "argv_get argv 2")
      case (Inl f)
      then show ?thesis using assms(2) False a1 by (simp add: ft2c_main_def Let_def)
    next
      case a2: (Inr a2)
      show ?thesis
      proof (cases "check_nodes (atoi a1) (atoi a2)")
        case (Some m)
        then show ?thesis using assms(1) False a1 a2
          by (simp add: ft2c_main_def Let_def split: if_splits)
      next
        case None
        show ?thesis
        proof (cases "memalign_ret S 0 = 0")
          case False
          then show ?thesis using assms(1) \<open>main_tid S \<noteq> - 1\<close> a1 a2 None
            by (simp add: ft2c_main_def Let_def split: if_splits)
        next
          case True
          then show ?thesis using assms(2) False a1 a2 None
            by (simp add: ft2c_main_def Let_def split: if_splits sum.splits)
        qed
      qed
    qed
  qed
qed

text \<open>
  Claim C1 asks for a non-zero exit code whenever a task fails. In ft2c the child keeps
  its verdict in a local variable and returns \<open>NULL\<close>, and \<open>main\<close> returns the 0 left by
  \<open>posix_memalign\<close>. With the sink offline at the first hop the child prints its
  failure line, and the run goes on to print "TEST PASSED" and to exit with 0.
\<close>

theorem failed_task_exit_code_zero:
  "ft2c_main S_out_offline [''ft2c'', ''0'', ''1''] =
     \<lparr>r_out =
        [Printf (ProcessIdIs 99), Call_posix_memalign, Call_barrier_init 2,
         Call_pthread_create, Printf (ThreadIdIs 100),
         Printf (LocalArch 0 (Some ''x86-64'')), Printf (RemoteArch 1 (Some ''x86-64'')),
         Printf (MigOffline 100 1), Call_pthread_join, Printf (ThreadExited 0 100 0),
         Call_free, Printf (TestPassed 0)],
      r_outcome = Exit 0\<rparr>"
  by (simp add: model_defs env_defs)

text \<open>
  Claim C5 asks that a task whose hop back returns the offline code ends with a
  classified migration error and that the exit code is not 0. In ft2c the value
  returned by the second \<open>migrate\<close> is stored and never looked at: no migration line
  is printed, the failure shows only because the final node check finds the thread at
  node 1, and the exit code is 0.
\<close>

theorem return_hop_offline_unclassified:
  "ft2c_main S_back_offline [''ft2c'', ''0'', ''1''] =
     \<lparr>r_out =
        [Printf (ProcessIdIs 99), Call_posix_memalign, Call_barrier_init 2,
         Call_pthread_create, Printf (ThreadIdIs 100),
         Printf (LocalArch 0 (Some ''x86-64'')), Printf (RemoteArch 1 (Some ''x86-64'')),
         Printf ArrivedBack, Printf (ThreadIdIs 100), Printf (WrongNode 0 1),
         Call_pthread_join, Printf (ThreadExited 0 100 0), Call_free,
         Printf (TestPassed 0)],
      r_outcome = Exit 0\<rparr> \<and>
   migrate_ret P_back_offline 1 = - EAGAIN"
  by (simp add: model_defs env_defs)

text \<open>
  Claim C8 asks that a wrong number of arguments ends the run with a non-zero exit code
  and without running a task. With one argument too many ft2c prints the usage line, to
  the standard output, and then goes on: the task is created, makes its round trip and
  passes, and the exit code is 0.
\<close>

theorem extra_argument_runs_task:
  "ft2c_main S_ok [''ft2c'', ''0'', ''1'', ''2''] =
     \<lparr>r_out =
        [Printf UsageArgs, Printf (ProcessIdIs 99), Call_posix_memalign,
         Call_barrier_init 2, Call_pthread_create, Printf (ThreadIdIs 100),
         Printf (LocalArch 0 (Some ''x86-64'')), Printf (RemoteArch 1 (Some ''x86-64'')),
         Printf ArrivedBack, Printf (ThreadIdIs 100),
         Printf (LocalArch 0 (Some ''x86-64'')), Printf (RemoteArch 1 (Some ''x86-64'')),
         Printf (ThreadPassed 100 0), Call_pthread_join, Printf (ThreadExited 0 100 0),
         Call_free, Printf (TestPassed 0)],
      r_outcome = Exit 0\<rparr>"
  by (simp add: model_defs env_defs)

section \<open>The round trip of ft2c\<close>

lemma node_sanity_check_msgs:
  assumes "node_sanity_check P h l r = Inr (e, ms)"
  shows "list_all check_msg ms"
  using assms
  by (auto simp: node_sanity_check_def check_msg_def split: prod.splits if_splits sum.splits)

lemma thread_sanity_check_msgs:
  assumes "thread_sanity_check P h n t = (e, ms)"
  shows "list_all check_msg ms"
  using assms
  by (auto simp: thread_sanity_check_def check_msg_def split: prod.splits if_splits)

lemma check_msg_simps [simp]:
  "\<not> check_msg ArrivedBack" "\<not> check_msg (ThreadPassed a b)" "\<not> check_msg (TidMismatch a b)"
  "\<not> check_msg (TidNotPositive a)" "\<not> check_msg (ThreadIdIs a)"
  by (simp_all add: check_msg_def)

lemma list_all_check_not_mem:
  "list_all check_msg ms \<Longrightarrow> \<not> check_msg m \<Longrightarrow> m \<notin> set ms"
  by (auto simp: list_all_iff)

lemma return_hop_result:
  assumes "child_return_hop P st c0 = Inr c"
  shows "\<exists>rest. cout c = cout c0 @ ArrivedBack # rest \<and> ArrivedBack \<notin> set rest \<and>
      (if gettid_at P 2 = st \<and> st \<noteq> - 1
       then \<exists>ms. rest = ThreadIdIs st # ms
       else done_flag (cthr c) = 1 \<and> cerrno c = - 1 \<and>
            (\<forall>a b. ThreadPassed a b \<notin> set rest) \<and>
            rest = [if gettid_at P 2 = - 1 then TidNotPositive (gettid_at P 2)
                    else TidMismatch (gettid_at P 2) st])"
proof (cases "gettid_at P 2 = st \<and> st \<noteq> - 1")
  case False
  then show ?thesis using assms
    by (auto simp: child_return_hop_def say_def set_done_def Let_def split: if_splits)
next
  case True
  then obtain e ms where n: "node_sanity_check P 2 (source_nid (cthr c0)) (sink_nid (cthr c0)) = Inr (e, ms)"
    using assms
    by (auto simp: child_return_hop_def say_def set_done_def Let_def split: if_splits sum.splits)
  have "ArrivedBack \<notin> set ms"
    using list_all_check_not_mem[OF node_sanity_check_msgs[OF n]] by simp
  then show ?thesis using assms True n
    by (auto simp: child_return_hop_def say_def set_done_def Let_def split: if_splits)
qed

lemma outbound_hop_result:
  assumes "child_outbound_hop P st c0 = Inr c" "ArrivedBack \<in> set (cout c)"
    "ArrivedBack \<notin> set (cout c0)"
  shows "\<exists>c1. child_return_hop P st c1 = Inr c \<and> cout c1 = cout c0"
  using assms
  by (auto simp: child_outbound_hop_def say_def set_done_def Let_def migrate_failure_msg_def
           split: if_splits)

lemma child_thread_result:
  assumes "child_thread P t = Inr c" "ArrivedBack \<in> set (cout c)"
  shows "\<exists>c1. child_return_hop P (gettid_at P 0) c1 = Inr c \<and> gettid_at P 0 \<noteq> - 1 \<and>
              ArrivedBack \<notin> set (cout c1) \<and> (\<forall>a b. ThreadPassed a b \<notin> set (cout c1))"
proof -
  have st: "gettid_at P 0 \<noteq> - 1"
    using assms by (auto simp: child_thread_def say_def set_done_def Let_def split: if_splits)
  obtain e ms where n: "node_sanity_check P 0 (source_nid t) (sink_nid t) = Inr (e, ms)"
    using assms st
    by (auto simp: child_thread_def say_def set_done_def Let_def split: if_splits sum.splits)
  have ms: "ArrivedBack \<notin> set ms" "\<And>a b. ThreadPassed a b \<notin> set ms"
    using list_all_check_not_mem[OF node_sanity_check_msgs[OF n]] by simp_all
  have e: "e = 0"
    using assms st n ms
    by (auto simp: child_thread_def say_def set_done_def Let_def split: if_splits)
  obtain e' ms' where t: "thread_sanity_check P 0 (source_nid t) (gettid_at P 0) = (e', ms')"
    by (cases "thread_sanity_check P 0 (source_nid t) (gettid_at P 0)") auto
  have ms': "ArrivedBack \<notin> set ms'" "\<And>a b. ThreadPassed a b \<notin> set ms'"
    using list_all_check_not_mem[OF thread_sanity_check_msgs[OF t]] by simp_all
  have e': "e' = 0"
    using assms st n ms e t ms'
    by (auto simp: child_thread_def say_def set_done_def Let_def split: if_splits)
  let ?c3 = "\<lparr>cthr = t\<lparr>tid := gettid_at P 0\<rparr>, cerrno = 0,
              cout = ThreadIdIs (gettid_at P 0) # ms @ ms'\<rparr>"
  have "child_outbound_hop P (gettid_at P 0) ?c3 = Inr c"
    using assms(1) st n e t e' by (simp add: child_thread_def say_def set_done_def Let_def)
  moreover have "ArrivedBack \<notin> set (cout ?c3)" using ms ms' by simp
  ultimately obtain c1 where "child_return_hop P (gettid_at P 0) c1 = Inr c" "cout c1 = cout ?c3"
    using outbound_hop_result[OF _ assms(2)] by blast
  then show ?thesis using st ms ms' by auto
qed

text \<open>
  What ft2c.c does on the way back. When the child has made the hop out and the hop
  back, a "PASSED" line implies that the thread id read after the hop back equals the
  id read before the first hop; and when the two differ, the child ends with \<open>done\<close>
  set, its error variable at -1 and no "PASSED" line, the last line printed being the
  mismatch of the two ids (or "not a positive integer", should \<open>gettid\<close> have returned
  -1).
\<close>

lemma roundtrip_identity_checked:
  assumes "child_thread P t = Inr c" and "ArrivedBack \<in> set (cout c)"
  shows "(ThreadPassed a b \<in> set (cout c) \<longrightarrow> gettid_at P 2 = gettid_at P 0) \<and>
         (gettid_at P 2 \<noteq> gettid_at P 0 \<longrightarrow>
            done_flag (cthr c) = 1 \<and> cerrno c = - 1 \<and>
            (\<forall>x y. ThreadPassed x y \<notin> set (cout c)) \<and>
            last (cout c) = (if gettid_at P 2 = - 1 then TidNotPositive (gettid_at P 2)
                             else TidMismatch (gettid_at P 2) (gettid_at P 0)))"
proof -
  obtain c1 where c1: "child_return_hop P (gettid_at P 0) c1 = Inr c" "gettid_at P 0 \<noteq> - 1"
    "ArrivedBack \<notin> set (cout c1)" "\<forall>a b. ThreadPassed a b \<notin> set (cout c1)"
    using child_thread_result[OF assms] by blast
  obtain rest where r: "cout c = cout c1 @ ArrivedBack # rest"
    "if gettid_at P 2 = gettid_at P 0 \<and> gettid_at P 0 \<noteq> - 1
       then \<exists>ms. rest = ThreadIdIs (gettid_at P 0) # ms
       else done_flag (cthr c) = 1 \<and> cerrno c = - 1 \<and>
            (\<forall>a b. ThreadPassed a b \<notin> set rest) \<and>
            rest = [if gettid_at P 2 = - 1 then TidNotPositive (gettid_at P 2)
                    else TidMismatch (gettid_at P 2) (gettid_at P 0)]"
    using return_hop_result[OF c1(1)] by blast
  show ?thesis
  proof (cases "gettid_at P 2 = gettid_at P 0")
    case True
    then show ?thesis by simp
  next
    case False
    then show ?thesis using r c1(4) by auto
  qed
qed

lemma roundtrip_identity_checked_example:
  "child_thread P_tid_changes t_01 = Inr c_mismatch \<and> ArrivedBack \<in> set (cout c_mismatch) \<and>
   gettid_at P_tid_changes 2 \<noteq> gettid_at P_tid_changes 0 \<and>
   done_flag (cthr c_mismatch) = 1 \<and> last (cout c_mismatch) = TidMismatch 999 100"
proof -
  have h1: "child_thread P_tid_changes t_01 = Inr c_mismatch"
    by (simp add: model_defs env_defs t_01_def c_mismatch_def)
  have h2: "ArrivedBack \<in> set (cout c_mismatch)"
    by (simp add: c_mismatch_def)
  have h3: "gettid_at P_tid_changes 2 \<noteq> gettid_at P_tid_changes 0"
    by (simp add: env_defs)
  show ?thesis
    using roundtrip_identity_checked[OF h1 h2, of 100 0] h1 h2 h3 by (simp add: env_defs)
qed

text \<open>
  Claim C2 asks that a thread id which differs after the hop back ends the task as
  failed. ft2c.c makes the comparison (lines 287 to 293) and the header of tnd.c names
  matching values at both nodes as a pass criterion, but the loop of tnd.c reads the id
  at the sink only. On a platform where the id is 100 before the first hop and 999
  after the hop back, the task of tnd.c completes the cycle and stands at the head of
  the loop with \<open>done\<close> at 0 and no failure line, while the child of ft2c.c ends on the
  same platform with the mismatch line.
\<close>

theorem tnd_identity_not_compared:
  "gettid_at P_tid_changes 2 \<noteq> gettid_at P_tid_changes 0 \<and>
   child_run P_tid_changes 6 (0, new_child (new_thread 0 1)) =
     (0, \<lparr>tpc = MigrateOut,
          tthr = \<lparr>tid = 100, source_nid = 0, sink_nid = 1, done_flag = 0,
                  err = 0, flag = 100, arch_types = [2, 2]\<rparr>,
          source_tid = 100, sink_tid = 100, rnode = 1, snode = 0, thops = 2,
          tout = [Printf (TouchedSink 100 (Some ''x86-64'')),
                  Printf (TouchedSource 100 (Some ''x86-64'')), Sleep 1]\<rparr>) \<and>
   child_thread P_tid_changes t_01 =
     Inr \<lparr>cthr = \<lparr>tid = 100, source_nid = 0, sink_nid = 1, done_flag = 1\<rparr>,
          cerrno = - 1,
          cout = [ThreadIdIs 100, LocalArch 0 (Some ''x86-64''), RemoteArch 1 (Some ''x86-64''),
                  ArrivedBack, TidMismatch 999 100]\<rparr>"
  by code_simp

section \<open>The task of tnd\<close>

























section \<open>The coordinator of tnd\<close>

lemma prologue_initial_state:
  assumes "tnd_main_prologue S argv = Inr s0"
  shows "mpc s0 = M_Create \<and> gcount s0 = 0 \<and> all_done s0 = 0 \<and> barrier_arrived s0 = 0 \<and>
         barrier_count s0 = nthreads s0 + 1 \<and> i_var s0 = 0 \<and>
         threads s0 = replicate (nat (sint (nthreads s0))) None"
  using assms
  by (auto simp: tnd_main_prologue_def init_thread_params_def Let_def
           split: sum.splits if_splits option.splits prod.splits)

lemma main_step_gcount [simp]: "gcount (main_step s) = gcount s"
  by (simp add: main_step_def barrier_wait_def split: main_pc.splits option.splits)

lemma main_step_nthreads [simp]: "nthreads (main_step s) = nthreads s"
  by (simp add: main_step_def barrier_wait_def split: main_pc.splits option.splits)

lemma thread_step_gcount [simp]: "gcount (thread_step S k s) = gcount s"
  by (simp add: thread_step_def split: option.splits prod.splits)

lemma thread_step_nthreads [simp]: "nthreads (thread_step S k s) = nthreads s"
  by (simp add: thread_step_def split: option.splits prod.splits)

lemma thread_step_mpc [simp]: "mpc (thread_step S k s) = mpc s"
  by (simp add: thread_step_def split: option.splits prod.splits)

lemma main_step_stays_before_join:
  assumes "gcount s <s nthreads s" "\<not> past_gcount_poll (mpc s)"
  shows "\<not> past_gcount_poll (mpc (main_step s))"
  using assms
  by (cases "mpc s") (simp_all add: main_step_def barrier_wait_def past_gcount_poll_def)

lemma tnd_step_invariant:
  assumes "gcount s = 0" "1 \<le>s nthreads s" "\<not> past_gcount_poll (mpc s)"
  shows "gcount (tnd_step S s a) = 0 \<and> nthreads (tnd_step S s a) = nthreads s \<and>
         \<not> past_gcount_poll (mpc (tnd_step S s a))"
proof (cases a)
  case Main
  have "gcount s <s nthreads s"
    using assms(1,2) by (simp add: word_sless_alt word_sle_eq)
  then show ?thesis
    using assms Main main_step_stays_before_join[of s] by (simp add: tnd_step_def)
next
  case (Thread k)
  then show ?thesis using assms by (simp add: tnd_step_def)
qed

lemma tnd_exec_invariant:
  assumes "gcount s = 0" "1 \<le>s nthreads s" "\<not> past_gcount_poll (mpc s)"
  shows "gcount (tnd_exec S sched s) = 0 \<and> nthreads (tnd_exec S sched s) = nthreads s \<and>
         \<not> past_gcount_poll (mpc (tnd_exec S sched s))"
  using assms
proof (induction sched arbitrary: s)
  case Nil
  then show ?case by (simp add: tnd_exec_def)
next
  case (Cons a sched)
  have step: "gcount (tnd_step S s a) = 0 \<and> nthreads (tnd_step S s a) = nthreads s \<and>
         \<not> past_gcount_poll (mpc (tnd_step S s a))"
    using tnd_step_invariant[OF Cons.prems] .
  have "gcount (tnd_exec S sched (tnd_step S s a)) = 0 \<and>
        nthreads (tnd_exec S sched (tnd_step S s a)) = nthreads (tnd_step S s a) \<and>
        \<not> past_gcount_poll (mpc (tnd_exec S sched (tnd_step S s a)))"
    using Cons.IH[of "tnd_step S s a"] step Cons.prems(2) by simp
  then show ?case using step by (simp add: tnd_exec_def)
qed

text \<open>
  Claim C10. \<open>main\<close> of tnd.c sets \<open>gcount\<close> to 0 and no step of the coordinator or of a
  task changes it. With at least one task, in every state that any schedule reaches,
  \<open>gcount\<close> is 0, the condition \<open>gcount < nthreads\<close> of the polling loop holds, and the
  coordinator has not gone past that loop: it neither joins a task nor prints the
  report.
\<close>

theorem coordinator_never_joins:
  assumes "tnd_main_prologue S argv = Inr s0" and "1 \<le>s nthreads s0"
  shows "gcount s0 = 0 \<and>
         gcount (tnd_exec S sched s0) = 0 \<and>
         gcount (tnd_exec S sched s0) <s nthreads (tnd_exec S sched s0) \<and>
         \<not> past_gcount_poll (mpc (tnd_exec S sched s0))"
proof -
  have init: "gcount s0 = 0" "\<not> past_gcount_poll (mpc s0)"
    using prologue_initial_state[OF assms(1)] by (simp_all add: past_gcount_poll_def)
  have inv: "gcount (tnd_exec S sched s0) = 0 \<and> nthreads (tnd_exec S sched s0) = nthreads s0 \<and>
         \<not> past_gcount_poll (mpc (tnd_exec S sched s0))"
    using tnd_exec_invariant[OF init(1) assms(2) init(2)] .
  then have "gcount (tnd_exec S sched s0) <s nthreads (tnd_exec S sched s0)"
    using assms(2) by (simp add: word_sless_alt word_sle_eq)
  then show ?thesis using init inv by simp
qed

theorem coordinator_never_joins_witness:
  "tnd_main_prologue S_ok [''tnd'', ''0'', ''1'', ''2''] = Inr s0_two \<and> 1 \<le>s nthreads s0_two \<and>
   gcount (tnd_exec S_ok [Main, Main, Thread 0, Thread 1, Main, Main, Main] s0_two) = 0 \<and>
   gcount (tnd_exec S_ok [Main, Main, Thread 0, Thread 1, Main, Main, Main] s0_two) <s
     nthreads (tnd_exec S_ok [Main, Main, Thread 0, Thread 1, Main, Main, Main] s0_two) \<and>
   \<not> past_gcount_poll (mpc (tnd_exec S_ok [Main, Main, Thread 0, Thread 1, Main, Main, Main] s0_two)) \<and>
   mpc (tnd_exec S_ok [Main, Main, Thread 0, Thread 1, Main, Main, Main] s0_two) = M_Blocked1"
proof -
  have h1: "tnd_main_prologue S_ok [''tnd'', ''0'', ''1'', ''2''] = Inr s0_two"
    by code_simp
  have h2: "1 \<le>s nthreads s0_two"
    by (simp add: s0_two_def word_sle_eq)
  have h3: "mpc (tnd_exec S_ok [Main, Main, Thread 0, Thread 1, Main, Main, Main] s0_two) = M_Blocked1"
    by code_simp
  show ?thesis
    using coordinator_never_joins[OF h1 h2, of "[Main, Main, Thread 0, Thread 1, Main, Main, Main]"] h1 h2 h3
    by blast
qed

text \<open>
  Claim C9 asks that the stores of \<open>node_sanity_check\<close> into \<open>arch_types\<close> stay inside
  the two cells of the array for every pair of ids that the validation accepts. The
  ids 0 and 2 are accepted, and the store for node 2 lies outside: the call, and the
  task that makes it, end in undefined behaviour.
\<close>

theorem arch_types_store_out_of_bounds:
  "check_nodes (atoi ''0'') (atoi ''2'') = None \<and>
   node_sanity_check_tnd P_ok 0 0 2 (arch_types (new_thread 0 2)) = Inl OutOfBounds \<and>
   (case tnd_main_prologue S_ok [''tnd'', ''0'', ''2'', ''1''] of
      Inl r \<Rightarrow> False
    | Inr s0 \<Rightarrow>
        map (map_option tpc) (threads (tnd_exec S_ok [Main, Thread 0, Thread 0] s0)) =
          [Some (Undefined_at OutOfBounds)])"
  by code_simp

text \<open>
  Claim C6 asks that no task starts its node check, let alone migrates, before all
  tasks and the coordinator have reached the barrier. The child of tnd.c never waits
  on the barrier. With two tasks, after the coordinator has created the first one, that
  task runs its node check and its first \<open>migrate\<close> while the second task does not
  exist yet and nobody has arrived at the barrier.
\<close>

theorem task_migrates_before_sibling_created:
  "(case tnd_main_prologue S_ok [''tnd'', ''0'', ''1'', ''2''] of
      Inl r \<Rightarrow> False
    | Inr s0 \<Rightarrow>
        (let s = tnd_exec S_ok [Main, Thread 0, Thread 0, Thread 0] s0
         in mpc s = M_Create \<and> i_var s = 1 \<and> barrier_arrived s = 0 \<and>
            map (map_option tpc) (threads s) = [Some AtSink, None] \<and>
            map (map_option thops) (threads s) = [Some 1, None]))"
  by code_simp

end
